theory Spec2Isabelle
  imports Main "HOL-Library.AList" "HOL-Library.Sublist"
begin

section \<open>domainforge: the registry, the broadcaster and the admin protocol\<close>

text \<open>
  A shallow embedding of \<^verbatim>\<open>DomainForge\<close> (the registry of \<^verbatim>\<open>domainforge.go\<close>, kept in
  the second part of \<^verbatim>\<open>src/README.md\<close>), of \<^verbatim>\<open>handleConnection\<close> (\<^verbatim>\<open>main.go\<close>) and of
  \<^verbatim>\<open>GetLocalIP\<close> (package \<^verbatim>\<open>utils\<close>).

  Every registry method takes the mutex on entry and releases it on return, so each call is
  one atomic step on the daemon's state; the model passes that state explicitly.
  A Go string is a sequence of bytes, here a \<^typ>\<open>string\<close>.
\<close>

subsection \<open>Library functions of Go used by the code\<close>

text \<open>
  \<^verbatim>\<open>unicode.IsSpace\<close>: the white-space code points, each in its UTF-8 encoding. A lead byte of
  one of the longer encodings is never a continuation byte, so matching the encodings on the
  bytes agrees with decoding rune by rune.
\<close>

definition space_runes :: "string list" where
  "space_runes =
     [[CHR 0x09], [CHR 0x0A], [CHR 0x0B], [CHR 0x0C], [CHR 0x0D], [CHR 0x20],
      [CHR 0xC2, CHR 0x85], [CHR 0xC2, CHR 0xA0],
      [CHR 0xE1, CHR 0x9A, CHR 0x80],
      [CHR 0xE2, CHR 0x80, CHR 0x80], [CHR 0xE2, CHR 0x80, CHR 0x81],
      [CHR 0xE2, CHR 0x80, CHR 0x82], [CHR 0xE2, CHR 0x80, CHR 0x83],
      [CHR 0xE2, CHR 0x80, CHR 0x84], [CHR 0xE2, CHR 0x80, CHR 0x85],
      [CHR 0xE2, CHR 0x80, CHR 0x86], [CHR 0xE2, CHR 0x80, CHR 0x87],
      [CHR 0xE2, CHR 0x80, CHR 0x88], [CHR 0xE2, CHR 0x80, CHR 0x89],
      [CHR 0xE2, CHR 0x80, CHR 0x8A],
      [CHR 0xE2, CHR 0x80, CHR 0xA8], [CHR 0xE2, CHR 0x80, CHR 0xA9],
      [CHR 0xE2, CHR 0x80, CHR 0xAF], [CHR 0xE2, CHR 0x81, CHR 0x9F],
      [CHR 0xE3, CHR 0x80, CHR 0x80]]"

text \<open>The width in bytes of the white-space rune a string starts (ends) with; 0 if none.\<close>

definition spaceWidth :: "string \<Rightarrow> nat" where
  "spaceWidth s = (case find (\<lambda>w. prefix w s) space_runes of None \<Rightarrow> 0 | Some w \<Rightarrow> length w)"

definition spaceWidthLast :: "string \<Rightarrow> nat" where
  "spaceWidthLast s = (case find (\<lambda>w. suffix w s) space_runes of None \<Rightarrow> 0 | Some w \<Rightarrow> length w)"

text \<open>
  \<^verbatim>\<open>strings.Fields\<close>: the maximal runs of non-space runes, in order. The first argument is
  the field being collected.
\<close>

function Fields_loop :: "string \<Rightarrow> string \<Rightarrow> string list" where
  "Fields_loop cur [] = (if cur = [] then [] else [cur])"
| "Fields_loop cur (c # cs) =
     (if spaceWidth (c # cs) = 0 then Fields_loop (cur @ [c]) cs
      else (if cur = [] then [] else [cur]) @ Fields_loop [] (drop (spaceWidth (c # cs)) (c # cs)))"
  by pat_completeness auto
termination
  by (relation "measure (\<lambda>(cur, s). length s)") auto

definition Fields :: "string \<Rightarrow> string list" where
  "Fields s = Fields_loop [] s"

text \<open>\<^verbatim>\<open>strings.TrimSpace\<close>: leading white space is cut first, then trailing white space.\<close>

function trimLeft :: "string \<Rightarrow> string" where
  "trimLeft s = (if spaceWidth s = 0 \<or> s = [] then s else trimLeft (drop (spaceWidth s) s))"
  by pat_completeness auto
termination
  by (relation "measure length") auto

function trimRight :: "string \<Rightarrow> string" where
  "trimRight s =
     (if spaceWidthLast s = 0 \<or> s = [] then s else trimRight (take (length s - spaceWidthLast s) s))"
  by pat_completeness auto
termination
  by (relation "measure length") auto

declare trimLeft.simps [simp del] trimRight.simps [simp del]

definition TrimSpace :: "string \<Rightarrow> string" where
  "TrimSpace s = trimRight (trimLeft s)"

text \<open>The verb \<^verbatim>\<open>%d\<close> of \<^verbatim>\<open>fmt\<close>: a number in decimal.\<close>

fun digits :: "nat \<Rightarrow> string" where
  "digits n =
     (if n < 10 then [''0123456789'' ! n] else digits (n div 10) @ [''0123456789'' ! (n mod 10)])"

declare digits.simps [simp del]

definition itoa :: "int \<Rightarrow> string" where
  "itoa i = (if i < 0 then CHR ''-'' # digits (nat (- i)) else digits (nat i))"

text \<open>
  \<^verbatim>\<open>strconv.Atoi\<close> on a 64-bit platform: an optional sign, then decimal digits only. The
  digits are read left to right into an unsigned 64-bit number, and the error is the first
  one met: a byte that is no digit is a syntax error, a value that leaves the unsigned range
  a range error; a value outside \<^verbatim>\<open>int\<close> is a range error at the end.
\<close>

datatype NumError = ErrSyntax | ErrRange

fun ParseUint_loop :: "nat \<Rightarrow> string \<Rightarrow> NumError + nat" where
  "ParseUint_loop n [] = Inr n"
| "ParseUint_loop n (c # cs) =
     (if (of_char c :: nat) < 48 \<or> (of_char c :: nat) > 57 then Inl ErrSyntax
      else if 10 * n + (of_char c - 48) \<ge> 2 ^ 64 then Inl ErrRange
      else ParseUint_loop (10 * n + (of_char c - 48)) cs)"

definition Atoi :: "string \<Rightarrow> NumError + int" where
  "Atoi s =
     (let neg = (s \<noteq> [] \<and> hd s = CHR ''-'');
          body = (if s \<noteq> [] \<and> (hd s = CHR ''+'' \<or> hd s = CHR ''-'') then tl s else s)
      in if body = [] then Inl ErrSyntax
         else case ParseUint_loop 0 body of
                Inl ErrSyntax \<Rightarrow> Inl ErrSyntax
              | Inl ErrRange \<Rightarrow> Inl ErrRange
              | Inr n \<Rightarrow>
                  if \<not> neg \<and> n \<ge> 2 ^ 63 then Inl ErrRange
                  else if neg \<and> n > 2 ^ 63 then Inl ErrRange
                  else Inr (if neg then - int n else int n))"

text \<open>
  The text of a \<^verbatim>\<open>*strconv.NumError\<close>. \<^verbatim>\<open>strconv.Quote\<close> is taken as a parameter.
\<close>

definition NumError_Error :: "(string \<Rightarrow> string) \<Rightarrow> string \<Rightarrow> NumError \<Rightarrow> string" where
  "NumError_Error quote s e =
     ''strconv.Atoi: parsing '' @ quote s @ '': '' @
     (case e of ErrSyntax \<Rightarrow> ''invalid syntax'' | ErrRange \<Rightarrow> ''value out of range'')"

subsection \<open>The Local-Network Resolver: \<^verbatim>\<open>utils.GetLocalIP\<close>\<close>

text \<open>
  An interface address is a \<^verbatim>\<open>*net.IPNet\<close>, a \<^verbatim>\<open>*net.IPAddr\<close> or something else; a
  \<^verbatim>\<open>net.IP\<close> is a byte slice, \<^verbatim>\<open>nil\<close> being the empty list.
\<close>

datatype Addr = IPNet "nat list" | IPAddr "nat list" | OtherAddr

definition To4 :: "nat list \<Rightarrow> nat list option" where
  "To4 ip =
     (if length ip = 4 then Some ip
      else if length ip = 16 \<and> take 10 ip = replicate 10 0 \<and> ip ! 10 = 255 \<and> ip ! 11 = 255
      then Some (drop 12 ip)
      else None)"

definition IsLoopback :: "nat list \<Rightarrow> bool" where
  "IsLoopback ip =
     (case To4 ip of Some ip4 \<Rightarrow> ip4 ! 0 = 127
      | None \<Rightarrow> ip = replicate 15 0 @ [1])"

text \<open>\<^verbatim>\<open>IP.String\<close> of an address that has a 4-byte form: dotted decimal.\<close>

definition IP_String :: "nat list \<Rightarrow> string" where
  "IP_String ip =
     (case To4 ip of
        Some [a, b, c, d] \<Rightarrow> digits a @ ''.'' @ digits b @ ''.'' @ digits c @ ''.'' @ digits d
      | _ \<Rightarrow> [])"

fun GetLocalIP_loop :: "Addr list \<Rightarrow> string + string" where
  "GetLocalIP_loop [] = Inl ''no suitable local IP address found''"
| "GetLocalIP_loop (addr # addrs) =
     (let ip = (case addr of IPNet v \<Rightarrow> v | IPAddr v \<Rightarrow> v | OtherAddr \<Rightarrow> [])
      in if ip \<noteq> [] \<and> \<not> IsLoopback ip \<and> To4 ip \<noteq> None then Inr (IP_String ip)
         else GetLocalIP_loop addrs)"

text \<open>The argument is what \<^verbatim>\<open>net.InterfaceAddrs()\<close> returned: an error text or the addresses.\<close>

definition GetLocalIP :: "string + Addr list \<Rightarrow> string + string" where
  "GetLocalIP r = (case r of Inl err \<Rightarrow> Inl err | Inr addrs \<Rightarrow> GetLocalIP_loop addrs)"

subsection \<open>The environment of one call\<close>

record Config =
  QulesAdmin :: string
  AdminAddress :: string

text \<open>
  What the outside world answers during one call: the result of \<^verbatim>\<open>utils.ReadConfig()\<close>
  (its error text, or the configuration), of \<^verbatim>\<open>net.InterfaceAddrs()\<close>, the error (if any) of
  \<^verbatim>\<open>bonjour.RegisterProxy\<close> for a service, a host and an address, and the error (if any) of
  \<^verbatim>\<open>addQulesServerBlock\<close> for the domains, the port and the admin endpoint. The last
  function belongs to the repository but its file is not among the sources, so its result is
  a parameter, like the results of the libraries.
\<close>

record env =
  ReadConfig :: "string + Config"
  InterfaceAddrs :: "string + Addr list"
  RegisterProxy :: "string \<Rightarrow> string \<Rightarrow> string \<Rightarrow> string option"
  addQulesServerBlock :: "string list \<Rightarrow> int \<Rightarrow> string \<Rightarrow> string option"
  Quote :: "string \<Rightarrow> string"

subsection \<open>The state\<close>

text \<open>
  A \<^verbatim>\<open>*bonjour.Server\<close> is a number: the servers are numbered in the order in which
  \<^verbatim>\<open>RegisterProxy\<close> creates them.
\<close>

record Record =
  service :: string
  host :: string
  server :: nat

text \<open>
  The daemon: the map \<^verbatim>\<open>df.records\<close> as an association list with one pair per key (a Go
  map iterates in an unspecified order; the order of the list is the order one iteration
  takes), the number of servers created so far, the servers on which \<^verbatim>\<open>Shutdown()\<close> was
  called, in the order of the calls, the lines written by \<^verbatim>\<open>log.Printf\<close>, and whether the
  channel \<^verbatim>\<open>doneChan\<close> of \<^verbatim>\<open>run\<close> is closed.
\<close>

record daemon =
  records :: "(string \<times> Record) list"
  servers :: nat
  shutdowns :: "nat list"
  logs :: "string list"
  done_closed :: bool

text \<open>
  How a call ends: it returns, or \<^verbatim>\<open>log.Fatalln\<close> logs a message and exits the process, or
  the goroutine panics (which, unrecovered, ends the process too).
\<close>

datatype 'a exec = Return 'a | Fatal string | Panic string

definition NewDomainForge :: daemon where
  "NewDomainForge = \<lparr>records = [], servers = 0, shutdowns = [], logs = [], done_closed = False\<rparr>"

subsection \<open>The registry\<close>

definition List :: "daemon \<Rightarrow> string list" where
  "List s = map fst (records s)"

text \<open>
  The key under which \<^verbatim>\<open>Add(domain, port)\<close> stores its Record: the value of the local
  variable \<^verbatim>\<open>fullDomain\<close> of \<^verbatim>\<open>Add\<close>, as a function of the argument.
\<close>

definition fullDomain :: "string \<Rightarrow> string" where
  "fullDomain domain = TrimSpace domain @ ''.local''"

text \<open>
  \<^verbatim>\<open>Add\<close>. The record is stored under \<^verbatim>\<open>fullDomain\<close> before the server block is asked
  for; when that fails, the server is shut down and the key \<^verbatim>\<open>domain\<close> is deleted.
\<close>

definition Add :: "env \<Rightarrow> string \<Rightarrow> int \<Rightarrow> daemon \<Rightarrow> (string option \<times> daemon) exec" where
  "Add e domain port s =
     (case ReadConfig e of
        Inl err \<Rightarrow> Return (Some err, s)
      | Inr config \<Rightarrow>
         (case GetLocalIP (InterfaceAddrs e) of
            Inl err \<Rightarrow> Fatal (''Error getting local IP: '' @ err)
          | Inr localIP \<Rightarrow>
             (let clean = TrimSpace domain;
                  fullDomain = clean @ ''.local''
              in if map_of (records s) fullDomain \<noteq> None
                 then Return (Some (''domain '' @ fullDomain @ '' already registered''), s)
                 else
                  (let fullHost = fullDomain @ ''.'';
                       service = ''_'' @ clean @ ''._tcp''
                   in case RegisterProxy e service fullHost localIP of
                        Some err \<Rightarrow> Fatal (''Error registering frontend service: '' @ err)
                      | None \<Rightarrow>
                         (let s1 = servers s;
                              st = s\<lparr>servers := Suc s1,
                                     records := AList.update fullDomain
                                       \<lparr>service = service, host = fullHost, server = s1\<rparr> (records s)\<rparr>
                          in case addQulesServerBlock e [fullDomain] port (QulesAdmin config) of
                               Some err \<Rightarrow>
                                 Return (Some (''failed to add Qules server block: '' @ err),
                                   st\<lparr>shutdowns := shutdowns st @ [s1],
                                      records := AList.delete domain (records st)\<rparr>)
                             | None \<Rightarrow> Return (None, st))))))"

definition Remove :: "string \<Rightarrow> daemon \<Rightarrow> string option \<times> daemon" where
  "Remove domain s =
     (case map_of (records s) domain of
        None \<Rightarrow> (Some (''domain '' @ domain @ '' not registered''), s)
      | Some record \<Rightarrow>
          (None, s\<lparr>shutdowns := shutdowns s @ [server record],
                   records := AList.delete domain (records s),
                   logs := logs s @ [''Removed domain: '' @ domain]\<rparr>))"

fun Shutdown_loop :: "(string \<times> Record) list \<Rightarrow> daemon \<Rightarrow> daemon" where
  "Shutdown_loop [] s = s"
| "Shutdown_loop ((domain, rec) # rest) s =
     Shutdown_loop rest
       (s\<lparr>shutdowns := shutdowns s @ [server rec],
          logs := logs s @ [''Shutting down domain: '' @ domain]\<rparr>)"

definition Shutdown :: "daemon \<Rightarrow> daemon" where
  "Shutdown s = Shutdown_loop (records s) s"

text \<open>
  \<^verbatim>\<open>broadcastAll\<close>: one tick of the broadcaster. The second test of \<^verbatim>\<open>err\<close> in the loop
  is never reached with an error, \<^verbatim>\<open>log.Fatalln\<close> having left before.
\<close>

fun broadcast_loop :: "env \<Rightarrow> string \<Rightarrow> (string \<times> Record) list \<Rightarrow> daemon \<Rightarrow> daemon exec" where
  "broadcast_loop e localIP [] s = Return s"
| "broadcast_loop e localIP ((domain, info) # rest) s =
     (case RegisterProxy e (service info) (host info) localIP of
        Some err \<Rightarrow> Fatal (''Error registering frontend service: '' @ err)
      | None \<Rightarrow>
          broadcast_loop e localIP rest
            (s\<lparr>shutdowns := shutdowns s @ [server info],
               servers := Suc (servers s),
               records := AList.update domain (info\<lparr>server := servers s\<rparr>) (records s)\<rparr>))"

definition broadcastAll :: "env \<Rightarrow> daemon \<Rightarrow> daemon exec" where
  "broadcastAll e s =
     (case GetLocalIP (InterfaceAddrs e) of
        Inl err \<Rightarrow> Fatal (''Error getting local IP: '' @ err)
      | Inr localIP \<Rightarrow> broadcast_loop e localIP (records s) s)"

subsection \<open>The admin protocol\<close>

text \<open>
  \<^verbatim>\<open>handleConnection\<close>, once \<^verbatim>\<open>scanner.Scan()\<close> has delivered a line; \<open>line\<close> is
  \<^verbatim>\<open>scanner.Text()\<close>. The result is the list of the lines written to the connection and
  the new state. \<^verbatim>\<open>parts[0]\<close> is read before anything is known of the length of
  \<^verbatim>\<open>parts\<close>, and \<^verbatim>\<open>close(ch)\<close> on a closed channel panics.
\<close>

definition handleConnection :: "env \<Rightarrow> string \<Rightarrow> daemon \<Rightarrow> (string list \<times> daemon) exec" where
  "handleConnection e line s =
     (let parts = Fields line
      in case parts of
           [] \<Rightarrow> Panic ''runtime error: index out of range [0] with length 0''
         | cmd # _ \<Rightarrow>
            if cmd = ''add'' then
              (if length parts \<noteq> 4 then
                 Return ([''Invalid command. Usage: add <domain> --port <port>''], s)
               else if parts ! 2 \<noteq> ''--port'' then
                 Return ([''Invalid command. Usage: add <domain> --port <port>''], s)
               else
                 (let domain = parts ! 1
                  in case Atoi (parts ! 3) of
                       Inl err \<Rightarrow>
                         Return ([''Invalid port number: '' @ NumError_Error (Quote e) (parts ! 3) err], s)
                     | Inr port \<Rightarrow>
                        (case Add e domain port s of
                           Fatal m \<Rightarrow> Fatal m
                         | Panic m \<Rightarrow> Panic m
                         | Return (Some err, s') \<Rightarrow> Return ([''Error: '' @ err], s')
                         | Return (None, s') \<Rightarrow>
                             Return ([''Added domain: '' @ domain @ '' with port: '' @ itoa port], s'))))
            else if cmd = ''remove'' then
              (if length parts \<noteq> 2 then
                 Return ([''Invalid command. Usage: remove <domain>''], s)
               else
                 (let domain = parts ! 1
                  in case Remove domain s of
                       (Some err, s') \<Rightarrow> Return ([''Error: '' @ err], s')
                     | (None, s') \<Rightarrow> Return ([''Removed domain: '' @ domain], s')))
            else if cmd = ''list'' then
              (let domains = List s
               in if length domains = 0 then Return ([''No domains registered''], s)
                  else Return (''Registered domains:'' # map (\<lambda>domain. ''- '' @ domain) domains, s))
            else if cmd = ''stop'' then
              (if done_closed s then Panic ''close of closed channel''
               else Return ([], s\<lparr>done_closed := True\<rparr>))
            else Return ([''Unknown command''], s))"

subsection \<open>Sequences of operations and the live advertisements\<close>

text \<open>
  The operations on the registry that the daemon performs while it runs: \<^verbatim>\<open>Add\<close> and
  \<^verbatim>\<open>Remove\<close> from a connection handler (each with the environment of that call), a tick
  of the broadcaster, and \<^verbatim>\<open>Shutdown\<close>.
\<close>

datatype op = OpAdd env string int | OpRemove string | OpBroadcastAll env | OpShutdown

fun apply_op :: "op \<Rightarrow> daemon \<Rightarrow> daemon exec" where
  "apply_op (OpAdd e domain port) s =
     (case Add e domain port s of
        Return (err, s') \<Rightarrow> Return s'
      | Fatal m \<Rightarrow> Fatal m
      | Panic m \<Rightarrow> Panic m)"
| "apply_op (OpRemove domain) s = Return (snd (Remove domain s))"
| "apply_op (OpBroadcastAll e) s = broadcastAll e s"
| "apply_op OpShutdown s = Return (Shutdown s)"

text \<open>A sequence of operations; the process is gone after a \<open>Fatal\<close> or a \<open>Panic\<close>.\<close>

fun apply_ops :: "op list \<Rightarrow> daemon \<Rightarrow> daemon exec" where
  "apply_ops [] s = Return s"
| "apply_ops (x # xs) s =
     (case apply_op x s of
        Return s' \<Rightarrow> apply_ops xs s'
      | Fatal m \<Rightarrow> Fatal m
      | Panic m \<Rightarrow> Panic m)"

text \<open>
  The live advertisements: the servers that were created and on which \<^verbatim>\<open>Shutdown()\<close> was
  never called.
\<close>

definition live_servers :: "daemon \<Rightarrow> nat list" where
  "live_servers s = filter (\<lambda>h. h \<notin> set (shutdowns s)) [0..<servers s]"

text \<open>
  The Records and the live advertisements correspond one to one: the keys are distinct, no
  two Records share a server, the servers of the Records are exactly the live ones, and
  only servers that exist were shut down.
\<close>

definition registry_inv :: "daemon \<Rightarrow> bool" where
  "registry_inv s \<longleftrightarrow>
     distinct (map fst (records s)) \<and>
     distinct (map (server \<circ> snd) (records s)) \<and>
     set (map (server \<circ> snd) (records s)) = set (live_servers s) \<and>
     list_all (\<lambda>h. h < servers s) (shutdowns s)"

text \<open>
  Whether the server block of \<^verbatim>\<open>Add(domain, port)\<close> is refused in an environment, and the
  operations other than \<^verbatim>\<open>Shutdown\<close> and an \<^verbatim>\<open>Add\<close> with a refused server block.
\<close>

definition route_sync_fails :: "env \<Rightarrow> string \<Rightarrow> int \<Rightarrow> bool" where
  "route_sync_fails e domain port =
     (case ReadConfig e of
        Inl err \<Rightarrow> False
      | Inr config \<Rightarrow> addQulesServerBlock e [fullDomain domain] port (QulesAdmin config) \<noteq> None)"

fun keeps_live :: "op \<Rightarrow> bool" where
  "keeps_live (OpAdd e domain port) = (\<not> route_sync_fails e domain port)"
| "keeps_live (OpRemove domain) = True"
| "keeps_live (OpBroadcastAll e) = True"
| "keeps_live OpShutdown = False"

subsection \<open>Concrete environments and states\<close>

text \<open>\<^verbatim>\<open>utils.DefaultConfig()\<close>.\<close>

definition DefaultConfig :: Config where
  "DefaultConfig = \<lparr>QulesAdmin = ''http://localhost:1990'', AdminAddress = ''localhost:2013''\<rparr>"

text \<open>
  An environment in which every collaborator succeeds: no configuration file, a loopback
  and a LAN interface. Its \<open>Quote\<close> puts the string between double quotes, which is
  what \<^verbatim>\<open>strconv.Quote\<close> does to printable ASCII without a quote or a backslash.
\<close>

definition env_ok :: env where
  "env_ok =
     \<lparr>ReadConfig = Inr DefaultConfig,
      InterfaceAddrs = Inr [IPNet [127, 0, 0, 1], IPNet [192, 168, 1, 7]],
      RegisterProxy = (\<lambda>service host ip. None),
      addQulesServerBlock = (\<lambda>domains port admin. None),
      Quote = (\<lambda>s. CHR 0x22 # s @ [CHR 0x22])\<rparr>"

text \<open>The same, but the reverse proxy refuses the server block.\<close>

definition env_route_fails :: env where
  "env_route_fails =
     env_ok\<lparr>addQulesServerBlock := (\<lambda>domains port admin. Some ''connection refused'')\<rparr>"

text \<open>The same as \<open>env_ok\<close>, but the host has a loopback interface only.\<close>

definition env_no_ip :: env where
  "env_no_ip = env_ok\<lparr>InterfaceAddrs := Inr [IPNet [127, 0, 0, 1]]\<rparr>"

text \<open>The registry after a successful \<^verbatim>\<open>Add("hello", 3000)\<close> on the new registry.\<close>

definition hello_record :: Record where
  "hello_record = \<lparr>service = ''_hello._tcp'', host = ''hello.local.'', server = 0\<rparr>"

definition hello_daemon :: daemon where
  "hello_daemon =
     \<lparr>records = [(''hello.local'', hello_record)], servers = 1, shutdowns = [], logs = [],
      done_closed = False\<rparr>"

text \<open>
  The registry after \<^verbatim>\<open>Add("foo", 80)\<close> on the new registry when the server block is
  refused.
\<close>

definition foo_stale :: daemon where
  "foo_stale =
     \<lparr>records = [(''foo.local'', \<lparr>service = ''_foo._tcp'', host = ''foo.local.'', server = 0\<rparr>)],
      servers = 1, shutdowns = [0], logs = [], done_closed = False\<rparr>"

text \<open>The registry after a successful \<^verbatim>\<open>Add("foo", 80)\<close> on the new registry.\<close>

definition foo_daemon :: daemon where
  "foo_daemon =
     \<lparr>records = [(''foo.local'', \<lparr>service = ''_foo._tcp'', host = ''foo.local.'', server = 0\<rparr>)],
      servers = 1, shutdowns = [], logs = [], done_closed = False\<rparr>"

text \<open>
  \<open>hello_daemon\<close> after one tick of the broadcaster, and \<open>hello_daemon\<close> after
  \<^verbatim>\<open>Shutdown\<close>.
\<close>

definition hello_refreshed :: daemon where
  "hello_refreshed =
     \<lparr>records = [(''hello.local'', hello_record\<lparr>server := 1\<rparr>)], servers = 2,
      shutdowns = [0], logs = [], done_closed = False\<rparr>"

definition hello_shut_down :: daemon where
  "hello_shut_down =
     hello_daemon\<lparr>shutdowns := [0], logs := [''Shutting down domain: hello.local'']\<rparr>"

section \<open>Evaluation on concrete inputs\<close>


lemma env_ok_fields:
  "ReadConfig env_ok = Inr DefaultConfig"
  "RegisterProxy env_ok sv h ip = None"
  "addQulesServerBlock env_ok ds p a = None"
  by (simp_all add: env_ok_def)

lemma env_route_fails_fields:
  "ReadConfig env_route_fails = Inr DefaultConfig"
  "InterfaceAddrs env_route_fails = InterfaceAddrs env_ok"
  "RegisterProxy env_route_fails sv h ip = None"
  "addQulesServerBlock env_route_fails ds p a = Some ''connection refused''"
  by (simp_all add: env_route_fails_def env_ok_def)

lemma env_no_ip_fields:
  "ReadConfig env_no_ip = Inr DefaultConfig"
  by (simp_all add: env_no_ip_def env_ok_def)

lemma GetLocalIP_lan: "GetLocalIP (InterfaceAddrs env_ok) = Inr ''192.168.1.7''"
  by (simp add: env_ok_def GetLocalIP_def To4_def IsLoopback_def IP_String_def digits.simps)

lemma GetLocalIP_loopback_only:
  "GetLocalIP (InterfaceAddrs env_no_ip) = Inl ''no suitable local IP address found''"
  by (simp add: env_no_ip_def env_ok_def GetLocalIP_def To4_def IsLoopback_def)

lemma TrimSpace_hello: "TrimSpace ''hello'' = ''hello''"
  by code_simp

lemma TrimSpace_foo: "TrimSpace ''foo'' = ''foo''"
  by code_simp

lemma TrimSpace_foo_local: "TrimSpace ''foo.local'' = ''foo.local''"
  by code_simp

lemma Fields_empty: "Fields [] = []"
  by (simp add: Fields_def)

lemma Fields_add_hello:
  "Fields ''add hello --port 3000'' = [''add'', ''hello'', ''--port'', ''3000'']"
  by (simp add: Fields_def spaceWidth_def space_runes_def)

lemma Fields_remove_hello: "Fields ''remove hello'' = [''remove'', ''hello'']"
  by (simp add: Fields_def spaceWidth_def space_runes_def)

lemma Fields_remove_hello_local: "Fields ''remove hello.local'' = [''remove'', ''hello.local'']"
  by (simp add: Fields_def spaceWidth_def space_runes_def)

lemma Fields_list: "Fields ''list'' = [''list'']"
  by (simp add: Fields_def spaceWidth_def space_runes_def)

lemma Fields_stop: "Fields ''stop'' = [''stop'']"
  by (simp add: Fields_def spaceWidth_def space_runes_def)

lemma Atoi_3000: "Atoi ''3000'' = Inr 3000"
  by (simp add: Atoi_def)

lemma itoa_3000: "itoa 3000 = ''3000''"
  by (simp add: itoa_def digits.simps)

lemma Add_hello:
  "Add env_ok ''hello'' 3000 NewDomainForge = Return (None, hello_daemon)"
  by (simp add: Add_def Let_def env_ok_fields GetLocalIP_lan TrimSpace_hello NewDomainForge_def
      hello_daemon_def hello_record_def)

lemma handle_add_hello:
  "handleConnection env_ok ''add hello --port 3000'' NewDomainForge =
     Return ([''Added domain: hello with port: 3000''], hello_daemon)"
  by (simp add: handleConnection_def Fields_add_hello Atoi_3000 Add_hello itoa_3000)

lemma Fields_add_foo: "Fields ''add foo --port 80'' = [''add'', ''foo'', ''--port'', ''80'']"
  by (simp add: Fields_def spaceWidth_def space_runes_def)

lemma Atoi_80: "Atoi ''80'' = Inr 80"
  by (simp add: Atoi_def)

lemma Add_foo_refused:
  "Add env_route_fails ''foo'' 80 NewDomainForge =
     Return (Some ''failed to add Qules server block: connection refused'', foo_stale)"
  by (simp add: Add_def Let_def env_route_fails_fields GetLocalIP_lan TrimSpace_foo
      NewDomainForge_def foo_stale_def)

lemma Fields_remove_nope: "Fields ''remove nope'' = [''remove'', ''nope'']"
  by (simp add: Fields_def spaceWidth_def space_runes_def)

lemma broadcastAll_hello:
  "broadcastAll env_ok hello_daemon =
     Return \<lparr>records = [(''hello.local'', hello_record\<lparr>server := 1\<rparr>)], servers = 2,
             shutdowns = [0], logs = [], done_closed = False\<rparr>"
  by (simp add: broadcastAll_def GetLocalIP_lan env_ok_fields hello_daemon_def hello_record_def)

lemma not_route_sync_fails_ok: "\<not> route_sync_fails env_ok domain port"
  by (simp add: route_sync_fails_def env_ok_fields)

lemma apply_ops_add_tick:
  "apply_ops [OpAdd env_ok ''hello'' 3000, OpBroadcastAll env_ok] NewDomainForge =
     Return hello_refreshed"
  by (simp add: Add_hello broadcastAll_hello hello_refreshed_def)

lemma apply_ops_add_shutdown:
  "apply_ops [OpAdd env_ok ''hello'' 3000, OpShutdown] NewDomainForge = Return hello_shut_down"
  by (simp add: Add_hello Shutdown_def hello_shut_down_def hello_daemon_def hello_record_def)

section \<open>Facts about the registry\<close>

lemma map_of_None_iff_List: "map_of (records s) k = None \<longleftrightarrow> k \<notin> set (List s)"
  by (simp add: List_def map_of_eq_None_iff)

lemma count_list_distinct: "distinct xs \<Longrightarrow> x \<in> set xs \<Longrightarrow> count_list xs x = 1"
  by (induction xs) auto

lemma Shutdown_loop_eq:
  "Shutdown_loop rs s =
     s\<lparr>shutdowns := shutdowns s @ map (server \<circ> snd) rs,
       logs := logs s @ map (\<lambda>(domain, rec). ''Shutting down domain: '' @ domain) rs\<rparr>"
  by (induction rs s rule: Shutdown_loop.induct) simp_all

subsection \<open>The key of \<^verbatim>\<open>Add\<close> is never its argument\<close>

text \<open>
  \<^verbatim>\<open>TrimSpace\<close> cuts white space at both ends, and no white-space rune contains a dot
  or ends in the letter l; so \<open>fullDomain domain\<close>, which ends in \<^verbatim>\<open>.local\<close>, differs
  from \<open>domain\<close>.
\<close>

lemma find_Some_mem: "find P xs = Some x \<Longrightarrow> x \<in> set xs \<and> P x"
  by (induction xs) (auto split: if_splits)

lemma space_runes_facts:
  "w \<in> set space_runes \<Longrightarrow> w \<noteq> [] \<and> CHR ''.'' \<notin> set w \<and> last w \<noteq> CHR ''l''"
  by (auto simp add: space_runes_def)

lemma spaceWidth_0: "spaceWidth s = 0 \<Longrightarrow> w \<in> set space_runes \<Longrightarrow> \<not> prefix w s"
proof
  assume a: "spaceWidth s = 0" "w \<in> set space_runes" "prefix w s"
  then have "find (\<lambda>w. prefix w s) space_runes \<noteq> None"
    by (auto simp add: find_None_iff)
  then obtain v where v: "find (\<lambda>w. prefix w s) space_runes = Some v"
    by auto
  with find_Some_mem [OF v] space_runes_facts [of v] a(1) show False
    by (simp add: spaceWidth_def)
qed

lemma spaceWidth_pos:
  "spaceWidth s \<noteq> 0 \<Longrightarrow> \<exists>w \<in> set space_runes. prefix w s \<and> spaceWidth s = length w"
  by (auto simp add: spaceWidth_def split: option.splits dest: find_Some_mem)

lemma spaceWidthLast_pos:
  "spaceWidthLast s \<noteq> 0 \<Longrightarrow> \<exists>w \<in> set space_runes. suffix w s \<and> spaceWidthLast s = length w"
  by (auto simp add: spaceWidthLast_def split: option.splits dest: find_Some_mem)

lemma trimLeft_split:
  "\<exists>a. s = a @ trimLeft s \<and> (a = [] \<or> (\<exists>w \<in> set space_runes. prefix w a))"
proof (induction s rule: trimLeft.induct)
  case (1 s)
  show ?case
  proof (cases "spaceWidth s = 0 \<or> s = []")
    case True
    then have "trimLeft s = s" by (simp add: trimLeft.simps)
    then show ?thesis by simp
  next
    case False
    then obtain w where w: "w \<in> set space_runes" "prefix w s" "spaceWidth s = length w"
      using spaceWidth_pos by blast
    then obtain rest where rest: "s = w @ rest"
      by (auto elim: prefixE)
    with w False have tl: "trimLeft s = trimLeft rest"
      by (subst trimLeft.simps) simp
    from "1.IH" [OF False] w rest obtain a where "rest = a @ trimLeft rest"
      by auto
    with rest tl have "s = (w @ a) @ trimLeft s" by simp
    moreover have "prefix w (w @ a)" by simp
    ultimately show ?thesis using w(1) by blast
  qed
qed

lemma trimLeft_no_space: "trimLeft s = [] \<or> spaceWidth (trimLeft s) = 0"
proof (induction s rule: trimLeft.induct)
  case (1 s)
  show ?case
  proof (cases "spaceWidth s = 0 \<or> s = []")
    case True
    then have "trimLeft s = s" by (simp add: trimLeft.simps)
    with True show ?thesis by auto
  next
    case False
    then have "trimLeft s = trimLeft (drop (spaceWidth s) s)"
      by (subst trimLeft.simps) simp
    with "1.IH" [OF False] show ?thesis by simp
  qed
qed

lemma trimRight_split:
  "\<exists>b. s = trimRight s @ b \<and> (b = [] \<or> (\<exists>w \<in> set space_runes. suffix w b))"
proof (induction s rule: trimRight.induct)
  case (1 s)
  show ?case
  proof (cases "spaceWidthLast s = 0 \<or> s = []")
    case True
    then have "trimRight s = s" by (simp add: trimRight.simps)
    then show ?thesis by simp
  next
    case False
    then obtain w where w: "w \<in> set space_runes" "suffix w s" "spaceWidthLast s = length w"
      using spaceWidthLast_pos by blast
    then obtain rest where rest: "s = rest @ w"
      by (auto elim: suffixE)
    with w False have tr: "trimRight s = trimRight rest"
      by (subst trimRight.simps) simp
    from "1.IH" [OF False] w rest obtain b where "rest = trimRight rest @ b"
      by auto
    with rest tr have "s = trimRight s @ (b @ w)" by simp
    moreover have "suffix w (b @ w)" by (simp add: suffix_def)
    ultimately show ?thesis using w(1) by blast
  qed
qed

lemma fullDomain_neq: "fullDomain domain \<noteq> domain"
proof
  assume eq: "fullDomain domain = domain"
  obtain a where a: "domain = a @ trimLeft domain"
      "a = [] \<or> (\<exists>w \<in> set space_runes. prefix w a)"
    using trimLeft_split by blast
  obtain b where b: "trimLeft domain = TrimSpace domain @ b"
      "b = [] \<or> (\<exists>w \<in> set space_runes. suffix w b)"
    using trimRight_split [of "trimLeft domain"] by (auto simp add: TrimSpace_def)
  let ?c = "TrimSpace domain"
  from eq a(1) b(1) have long: "?c @ ''.local'' = a @ ?c @ b"
    by (simp add: fullDomain_def)
  show False
  proof (cases "b = []")
    case False
    with b(2) obtain w where w: "w \<in> set space_runes" "suffix w b" by blast
    with space_runes_facts [OF w(1)] have "last b = last w"
      by (auto simp add: suffix_def)
    with False have "last (a @ ?c @ b) = last w" by simp
    moreover have "last (?c @ ''.local'') = CHR ''l''" by simp
    ultimately show False
      using long space_runes_facts [OF w(1)] by simp
  next
    case True
    with long have long': "?c @ ''.local'' = a @ ?c" by simp
    then have "length (?c @ ''.local'') = length (a @ ?c)" by simp
    then have "a \<noteq> []" by auto
    with a(2) obtain w where w: "w \<in> set space_runes" "prefix w a" by blast
    then have "prefix w (a @ ?c)" by (simp add: prefix_prefix)
    with long' have pw: "prefix w (?c @ ''.local'')" by simp
    from True b(1) have c: "?c = trimLeft domain" by simp
    have "\<not> prefix w ?c"
    proof (cases "?c = []")
      case True
      with space_runes_facts [OF w(1)] show ?thesis by simp
    next
      case False
      with c trimLeft_no_space [of domain] have "spaceWidth ?c = 0" by simp
      then show ?thesis using w(1) by (rule spaceWidth_0)
    qed
    with pw obtain us where us: "w = ?c @ us" "prefix us ''.local''"
      by (auto simp add: prefix_append)
    with \<open>\<not> prefix w ?c\<close> have "us \<noteq> []" by auto
    with us(2) have "hd us = CHR ''.''"
      by (cases us) auto
    with \<open>us \<noteq> []\<close> us(1) have "CHR ''.'' \<in> set w"
      by (cases us) auto
    with space_runes_facts [OF w(1)] show False by simp
  qed
qed

subsection \<open>One tick of the broadcaster\<close>

lemma update_fresh: "k \<notin> fst ` set al \<Longrightarrow> AList.update k v al = al @ [(k, v)]"
  by (induction al) auto

lemma update_middle:
  "k \<notin> fst ` set pre \<Longrightarrow> AList.update k v (pre @ (k, r) # rest) = pre @ (k, v) # rest"
  by (induction pre) auto

lemma upt_shift: "[n..<Suc (n + k)] = n # [Suc n..<Suc (n + k)]"
  by (rule upt_conv_Cons) simp

lemma broadcast_loop_Return:
  assumes "distinct (map fst (pre @ todo))"
    and "records s = pre @ todo"
    and "\<forall>(domain, info) \<in> set todo. RegisterProxy e (service info) (host info) ip = None"
  shows "broadcast_loop e ip todo s =
     Return (s\<lparr>shutdowns := shutdowns s @ map (server \<circ> snd) todo,
               servers := servers s + length todo,
               records := pre @ map2 (\<lambda>(domain, info) n. (domain, info\<lparr>server := n\<rparr>)) todo
                                  [servers s..<servers s + length todo]\<rparr>)"
  using assms
proof (induction todo arbitrary: pre s)
  case Nil
  then show ?case by simp
next
  case (Cons p todo)
  obtain d r where p: "p = (d, r)" by (cases p)
  let ?n = "servers s"
  let ?s1 = "s\<lparr>shutdowns := shutdowns s @ [server r], servers := Suc ?n,
               records := AList.update d (r\<lparr>server := ?n\<rparr>) (records s)\<rparr>"
  from Cons.prems p have fresh: "d \<notin> fst ` set pre" by auto
  with Cons.prems(2) p have rec1: "records ?s1 = (pre @ [(d, r\<lparr>server := ?n\<rparr>)]) @ todo"
    by (simp add: update_middle)
  from Cons.prems(1) p have dist1: "distinct (map fst ((pre @ [(d, r\<lparr>server := ?n\<rparr>)]) @ todo))"
    by auto
  from Cons.prems(3) have all1:
    "\<forall>(domain, info) \<in> set todo. RegisterProxy e (service info) (host info) ip = None"
    by simp
  from Cons.prems(3) p have reg: "RegisterProxy e (service r) (host r) ip = None"
    by simp
  have "broadcast_loop e ip (p # todo) s = broadcast_loop e ip todo ?s1"
    using reg p by simp
  also have "\<dots> = Return (?s1\<lparr>shutdowns := shutdowns ?s1 @ map (server \<circ> snd) todo,
               servers := servers ?s1 + length todo,
               records := (pre @ [(d, r\<lparr>server := ?n\<rparr>)]) @
                   map2 (\<lambda>(domain, info) n. (domain, info\<lparr>server := n\<rparr>)) todo
                                  [servers ?s1..<servers ?s1 + length todo]\<rparr>)"
    by (rule Cons.IH [OF dist1 rec1 all1])
  also have "\<dots> = Return (s\<lparr>shutdowns := shutdowns s @ map (server \<circ> snd) (p # todo),
               servers := servers s + length (p # todo),
               records := pre @ map2 (\<lambda>(domain, info) n. (domain, info\<lparr>server := n\<rparr>)) (p # todo)
                                  [servers s..<servers s + length (p # todo)]\<rparr>)"
    using p by (simp add: upt_shift del: upt_Suc)
  finally show ?case .
qed

lemma broadcast_loop_ReturnD:
  "broadcast_loop e ip todo s = Return s' \<Longrightarrow>
     \<forall>(domain, info) \<in> set todo. RegisterProxy e (service info) (host info) ip = None"
  by (induction e ip todo s rule: broadcast_loop.induct) (auto split: option.splits)

lemma map2_renumber_keys:
  "length ns = length rs \<Longrightarrow>
     map fst (map2 (\<lambda>(domain, info) n. (domain, info\<lparr>server := n\<rparr>)) rs ns) = map fst rs"
  by (induction rs ns rule: list_induct2') auto

lemma map2_renumber_service:
  "length ns = length rs \<Longrightarrow>
     map (service \<circ> snd) (map2 (\<lambda>(domain, info) n. (domain, info\<lparr>server := n\<rparr>)) rs ns) =
     map (service \<circ> snd) rs"
  by (induction rs ns rule: list_induct2') auto

lemma map2_renumber_host:
  "length ns = length rs \<Longrightarrow>
     map (host \<circ> snd) (map2 (\<lambda>(domain, info) n. (domain, info\<lparr>server := n\<rparr>)) rs ns) =
     map (host \<circ> snd) rs"
  by (induction rs ns rule: list_induct2') auto

lemma map2_renumber_server:
  "length ns = length rs \<Longrightarrow>
     map (server \<circ> snd) (map2 (\<lambda>(domain, info) n. (domain, info\<lparr>server := n\<rparr>)) rs ns) = ns"
  by (induction rs ns rule: list_induct2') auto

lemma broadcastAll_Return:
  assumes "distinct (map fst (records s))"
    and "GetLocalIP (InterfaceAddrs e) = Inr localIP"
    and "\<forall>(domain, info) \<in> set (records s).
            RegisterProxy e (service info) (host info) localIP = None"
  shows "broadcastAll e s =
     Return (s\<lparr>shutdowns := shutdowns s @ map (server \<circ> snd) (records s),
               servers := servers s + length (records s),
               records := map2 (\<lambda>(domain, info) n. (domain, info\<lparr>server := n\<rparr>)) (records s)
                                  [servers s..<servers s + length (records s)]\<rparr>)"
  using broadcast_loop_Return [of "[]" "records s" s e localIP] assms
  by (simp add: broadcastAll_def)

subsection \<open>The operations keep the Records and the live servers in step\<close>

lemma registry_inv_iff:
  "registry_inv s \<longleftrightarrow>
     distinct (map fst (records s)) \<and>
     distinct (map (server \<circ> snd) (records s)) \<and>
     (\<forall>h. h \<in> (server \<circ> snd) ` set (records s) \<longleftrightarrow> h < servers s \<and> h \<notin> set (shutdowns s)) \<and>
     (\<forall>h \<in> set (shutdowns s). h < servers s)"
  by (auto simp add: registry_inv_def live_servers_def list_all_iff)

lemma registry_inv_New: "registry_inv NewDomainForge"
  by (simp add: registry_inv_def live_servers_def NewDomainForge_def)

lemma registry_inv_insert:
  assumes "registry_inv s" and "map_of (records s) k = None"
  shows "registry_inv (s\<lparr>servers := Suc (servers s),
            records := AList.update k \<lparr>service = sv, host = h, server = servers s\<rparr> (records s)\<rparr>)"
proof -
  from assms(2) have fresh: "k \<notin> fst ` set (records s)"
    by (simp add: map_of_eq_None_iff)
  from assms(1) have old: "\<forall>h \<in> (server \<circ> snd) ` set (records s). h < servers s"
    by (simp add: registry_inv_iff)
  then have "servers s \<notin> (server \<circ> snd) ` set (records s)"
    by blast
  with assms(1) fresh show ?thesis
    unfolding registry_inv_iff by (auto simp add: update_fresh less_Suc_eq)
qed

lemma Add_registry_inv:
  assumes "registry_inv s" and "\<not> route_sync_fails e domain port"
    and "Add e domain port s = Return (err, s')"
  shows "registry_inv s'"
proof (cases "ReadConfig e")
  case (Inl a)
  with assms show ?thesis by (simp add: Add_def)
next
  case (Inr config)
  with assms(2) have route: "addQulesServerBlock e [TrimSpace domain @ ''.local''] port (QulesAdmin config) = None"
    by (simp add: route_sync_fails_def fullDomain_def)
  show ?thesis
  proof (cases "map_of (records s) (TrimSpace domain @ ''.local'')")
    case None
    with assms(3) Inr route have "s' = s\<lparr>servers := Suc (servers s),
            records := AList.update (TrimSpace domain @ ''.local'')
              \<lparr>service = ''_'' @ TrimSpace domain @ ''._tcp'',
               host = (TrimSpace domain @ ''.local'') @ ''.'', server = servers s\<rparr> (records s)\<rparr>"
      by (simp add: Add_def Let_def split: sum.splits option.splits)
    with registry_inv_insert [OF assms(1) None] show ?thesis by simp
  next
    case (Some r)
    with assms(3) Inr have "s' = s"
      by (simp add: Add_def Let_def split: sum.splits)
    with assms(1) show ?thesis by simp
  qed
qed

lemma Remove_registry_inv:
  assumes "registry_inv s"
  shows "registry_inv (snd (Remove domain s))"
proof (cases "map_of (records s) domain")
  case None
  with assms show ?thesis by (simp add: Remove_def)
next
  case (Some r)
  from assms have dk: "distinct (map fst (records s))"
    and inj: "inj_on (server \<circ> snd) (set (records s))"
    by (simp_all add: registry_inv_iff distinct_map)
  from Some have mem: "(domain, r) \<in> set (records s)"
    by (rule map_of_SomeD)
  have keys: "\<And>r'. (domain, r') \<in> set (records s) \<Longrightarrow> r' = r"
    using dk Some by simp
  have img: "(server \<circ> snd) ` set (AList.delete domain (records s)) =
      (server \<circ> snd) ` set (records s) - {server r}"
  proof (intro equalityI subsetI)
    fix h assume "h \<in> (server \<circ> snd) ` set (AList.delete domain (records s))"
    then obtain d' r' where p: "(d', r') \<in> set (records s)" "d' \<noteq> domain" "h = server r'"
      by (auto simp add: AList.delete_eq)
    with inj_on_eq_iff [OF inj p(1) mem] have "server r' \<noteq> server r"
      by simp
    with p show "h \<in> (server \<circ> snd) ` set (records s) - {server r}"
      by force
  next
    fix h assume "h \<in> (server \<circ> snd) ` set (records s) - {server r}"
    then obtain d' r' where p: "(d', r') \<in> set (records s)" "h = server r'" "server r' \<noteq> server r"
      by auto
    with keys have "d' \<noteq> domain" by auto
    with p show "h \<in> (server \<circ> snd) ` set (AList.delete domain (records s))"
      by (force simp add: AList.delete_eq)
  qed
  have d2: "distinct (map (server \<circ> snd) (AList.delete domain (records s)))"
    using assms by (simp add: registry_inv_iff AList.delete_eq distinct_map_filter)
  have live: "server r < servers s"
    using assms mem by (force simp add: registry_inv_iff)
  from assms Some img d2 live dk show ?thesis
    unfolding registry_inv_iff
    by (auto simp add: Remove_def distinct_delete)
qed

lemma broadcastAll_registry_inv:
  assumes "registry_inv s" and "broadcastAll e s = Return s'"
  shows "registry_inv s'"
proof (cases "GetLocalIP (InterfaceAddrs e)")
  case (Inl a)
  with assms(2) show ?thesis by (simp add: broadcastAll_def)
next
  case (Inr localIP)
  with assms(2) have "broadcast_loop e localIP (records s) s = Return s'"
    by (simp add: broadcastAll_def)
  then have ok: "\<forall>(domain, info) \<in> set (records s).
            RegisterProxy e (service info) (host info) localIP = None"
    by (rule broadcast_loop_ReturnD)
  from assms(1) have dk: "distinct (map fst (records s))"
    by (simp add: registry_inv_iff)
  from broadcastAll_Return [OF dk Inr ok] assms(2)
  have s': "s' = s\<lparr>shutdowns := shutdowns s @ map (server \<circ> snd) (records s),
               servers := servers s + length (records s),
               records := map2 (\<lambda>(domain, info) n. (domain, info\<lparr>server := n\<rparr>)) (records s)
                                  [servers s..<servers s + length (records s)]\<rparr>"
    by simp
  have srv: "map (server \<circ> snd) (records s') = [servers s..<servers s + length (records s)]"
    using map2_renumber_server [of "[servers s..<servers s + length (records s)]" "records s"]
    by (simp add: s')
  have keys: "map fst (records s') = map fst (records s)"
    using map2_renumber_keys [of "[servers s..<servers s + length (records s)]" "records s"]
    by (simp add: s')
  from srv have img: "(server \<circ> snd) ` set (records s') = {servers s..<servers s + length (records s)}"
    by (metis set_map set_upt)
  from assms(1) have old: "\<And>h. h \<in> (server \<circ> snd) ` set (records s) \<longleftrightarrow>
      h < servers s \<and> h \<notin> set (shutdowns s)"
    and sd: "\<And>h. h \<in> set (shutdowns s) \<Longrightarrow> h < servers s"
    by (simp_all add: registry_inv_iff)
  have srvs: "servers s' = servers s + length (records s)"
    and shut: "set (shutdowns s') = set (shutdowns s) \<union> (server \<circ> snd) ` set (records s)"
    by (simp_all add: s')
  have live: "h \<in> (server \<circ> snd) ` set (records s') \<longleftrightarrow>
      h < servers s' \<and> h \<notin> set (shutdowns s')" for h
  proof
    assume "h \<in> (server \<circ> snd) ` set (records s')"
    with img have h: "servers s \<le> h" "h < servers s + length (records s)"
      by simp_all
    from h(1) sd [of h] have "h \<notin> set (shutdowns s)"
      by auto
    moreover from h(1) old [of h] have "h \<notin> (server \<circ> snd) ` set (records s)"
      by simp
    ultimately show "h < servers s' \<and> h \<notin> set (shutdowns s')"
      using h(2) srvs shut by simp
  next
    assume a: "h < servers s' \<and> h \<notin> set (shutdowns s')"
    with shut have "h \<notin> set (shutdowns s)" "h \<notin> (server \<circ> snd) ` set (records s)"
      by simp_all
    with old [of h] have "servers s \<le> h"
      by simp
    with a srvs img show "h \<in> (server \<circ> snd) ` set (records s')"
      by simp
  qed
  have created: "h < servers s'" if "h \<in> set (shutdowns s')" for h
  proof -
    from that shut have "h \<in> set (shutdowns s) \<or> h \<in> (server \<circ> snd) ` set (records s)"
      by simp
    with sd [of h] old [of h] have "h < servers s"
      by blast
    with srvs show ?thesis by simp
  qed
  have "distinct (map fst (records s'))"
    using dk keys by simp
  moreover have "distinct (map (server \<circ> snd) (records s'))"
    using srv by simp
  ultimately show ?thesis
    unfolding registry_inv_iff using live created by blast
qed

lemma apply_op_registry_inv:
  assumes "registry_inv s" and "keeps_live x" and "apply_op x s = Return s'"
  shows "registry_inv s'"
proof (cases x)
  case (OpAdd e domain port)
  with assms(3) obtain err where "Add e domain port s = Return (err, s')"
    by (auto split: exec.splits)
  with assms(1,2) OpAdd show ?thesis
    by (auto intro: Add_registry_inv)
next
  case (OpRemove domain)
  with assms(1,3) show ?thesis
    using Remove_registry_inv [of s domain] by auto
next
  case (OpBroadcastAll e)
  with assms(1,3) show ?thesis
    by (auto intro: broadcastAll_registry_inv)
next
  case OpShutdown
  with assms(2) show ?thesis by simp
qed

lemma apply_ops_registry_inv:
  "registry_inv s \<Longrightarrow> list_all keeps_live ops \<Longrightarrow> apply_ops ops s = Return s' \<Longrightarrow>
     registry_inv s'"
proof (induction ops arbitrary: s)
  case Nil
  then show ?case by simp
next
  case (Cons x ops)
  from Cons.prems(3) obtain s1 where s1: "apply_op x s = Return s1" "apply_ops ops s1 = Return s'"
    by (auto split: exec.splits)
  from Cons.prems(1,2) s1(1) have "registry_inv s1"
    by (auto intro: apply_op_registry_inv)
  with Cons.IH Cons.prems(2) s1(2) show ?case by simp
qed

section \<open>The claims\<close>

subsection \<open>C1: a failed server block in \<^verbatim>\<open>Add\<close>\<close>

text \<open>
  Claim C1: when the call of the Route Synchronizer (\<^verbatim>\<open>addQulesServerBlock\<close>) inside
  \<^verbatim>\<open>Add(name, port)\<close> fails, the new advertisement is released, the Record is not in
  the Registry afterwards, a wrapped error is returned and \<^verbatim>\<open>List()\<close> does not contain
  \<open>fullDomain name\<close>.

  The code stores the Record under \<^verbatim>\<open>fullDomain\<close> and, on failure, deletes the key
  \<^verbatim>\<open>domain\<close>. Evaluated on the new registry with \<^verbatim>\<open>Add("foo", 80)\<close> and a refused
  server block: the error is wrapped and server 0 is shut down, but the Record stays under
  \<^verbatim>\<open>foo.local\<close>, and \<^verbatim>\<open>list\<close> shows it.
\<close>

theorem Add_rollback_leaves_record:
  "Add env_route_fails ''foo'' 80 NewDomainForge =
     Return (Some ''failed to add Qules server block: connection refused'', foo_stale)
   \<and> List foo_stale = [''foo.local'']
   \<and> handleConnection env_route_fails ''add foo --port 80'' NewDomainForge =
     Return ([''Error: failed to add Qules server block: connection refused''], foo_stale)
   \<and> handleConnection env_ok ''list'' foo_stale =
     Return ([''Registered domains:'', ''- foo.local''], foo_stale)"
proof -
  note add = Add_foo_refused
  have lst: "List foo_stale = [''foo.local'']"
    by (simp add: List_def foo_stale_def)
  have h1: "handleConnection env_route_fails ''add foo --port 80'' NewDomainForge =
     Return ([''Error: failed to add Qules server block: connection refused''], foo_stale)"
    by (simp add: handleConnection_def Let_def Fields_add_foo Atoi_80 add)
  have h2: "handleConnection env_ok ''list'' foo_stale =
     Return ([''Registered domains:'', ''- foo.local''], foo_stale)"
    by (simp add: handleConnection_def Let_def Fields_list lst)
  from add lst h1 h2 show ?thesis by simp
qed

text \<open>
  The same holds for every state, name and port: when \<^verbatim>\<open>Add\<close> gets as far as the
  server block and that is refused, the new server is shut down and its Record stays in
  the registry under \<open>fullDomain domain\<close>.
\<close>

lemma Add_rollback_keeps_record:
  assumes "ReadConfig e = Inr config"
    and "GetLocalIP (InterfaceAddrs e) = Inr localIP"
    and "fullDomain domain \<notin> set (List s)"
    and "RegisterProxy e (''_'' @ TrimSpace domain @ ''._tcp'') (fullDomain domain @ ''.'') localIP = None"
    and "addQulesServerBlock e [fullDomain domain] port (QulesAdmin config) = Some err"
  shows "\<exists>s'. Add e domain port s =
            Return (Some (''failed to add Qules server block: '' @ err), s')
      \<and> shutdowns s' = shutdowns s @ [servers s]
      \<and> map_of (records s') (fullDomain domain) =
          Some \<lparr>service = ''_'' @ TrimSpace domain @ ''._tcp'', host = fullDomain domain @ ''.'',
                server = servers s\<rparr>
      \<and> fullDomain domain \<in> set (List s')"
proof -
  let ?r = "\<lparr>service = ''_'' @ TrimSpace domain @ ''._tcp'', host = fullDomain domain @ ''.'',
                server = servers s\<rparr>"
  let ?s' = "s\<lparr>servers := Suc (servers s),
               shutdowns := shutdowns s @ [servers s],
               records := AList.delete domain (AList.update (fullDomain domain) ?r (records s))\<rparr>"
  from assms(3) have absent: "map_of (records s) (fullDomain domain) = None"
    by (simp add: map_of_None_iff_List)
  with assms(1,2,4,5) have add: "Add e domain port s =
      Return (Some (''failed to add Qules server block: '' @ err), ?s')"
    by (simp add: Add_def Let_def fullDomain_def)
  have look: "map_of (records ?s') (fullDomain domain) = Some ?r"
    using fullDomain_neq [of domain] by (simp add: update_conv')
  then have "fullDomain domain \<in> set (List ?s')"
    using map_of_None_iff_List [of ?s' "fullDomain domain"] by simp
  with add look show ?thesis
    by (intro exI [of _ ?s']) simp
qed

text \<open>
  When the argument is itself the key of a Record, the rollback deletes that Record and
  leaves its server running: \<^verbatim>\<open>Add("foo.local", 80)\<close> on the registry of \<^verbatim>\<open>foo.local\<close>.
\<close>

lemma Add_rollback_deletes_other_record:
  "Add env_route_fails ''foo.local'' 80 foo_daemon =
     Return (Some ''failed to add Qules server block: connection refused'',
       \<lparr>records = [(''foo.local.local'',
            \<lparr>service = ''_foo.local._tcp'', host = ''foo.local.local.'', server = 1\<rparr>)],
        servers = 2, shutdowns = [1], logs = [], done_closed = False\<rparr>)"
  by (simp add: Add_def Let_def env_route_fails_fields GetLocalIP_lan TrimSpace_foo_local
      foo_daemon_def)

subsection \<open>C2: \<^verbatim>\<open>remove hello\<close> after \<^verbatim>\<open>add hello --port 3000\<close>\<close>

text \<open>
  Claim C2: on the registry that holds exactly the record added by a successful
  \<^verbatim>\<open>Add("hello", 3000)\<close>, the command \<^verbatim>\<open>remove hello\<close> succeeds, the response is
  \<^verbatim>\<open>Removed domain: hello.local\<close>, and \<^verbatim>\<open>list\<close> then answers
  \<^verbatim>\<open>No domains registered\<close>.

  The code evaluated there: \<^verbatim>\<open>Add\<close> stored the record under \<^verbatim>\<open>hello.local\<close>,
  \<^verbatim>\<open>Remove\<close> looks up the key \<^verbatim>\<open>hello\<close> as it was typed and finds nothing; the
  registry is unchanged and \<^verbatim>\<open>list\<close> still shows \<^verbatim>\<open>hello.local\<close>.
\<close>

theorem remove_hello_not_found:
  "Add env_ok ''hello'' 3000 NewDomainForge = Return (None, hello_daemon)
   \<and> handleConnection env_ok ''remove hello'' hello_daemon =
     Return ([''Error: domain hello not registered''], hello_daemon)
   \<and> handleConnection env_ok ''list'' hello_daemon =
     Return ([''Registered domains:'', ''- hello.local''], hello_daemon)"
proof -
  have rm: "Remove ''hello'' hello_daemon = (Some ''domain hello not registered'', hello_daemon)"
    by (simp add: Remove_def hello_daemon_def)
  have h1: "handleConnection env_ok ''remove hello'' hello_daemon =
     Return ([''Error: domain hello not registered''], hello_daemon)"
    by (simp add: handleConnection_def Let_def Fields_remove_hello rm)
  have h2: "handleConnection env_ok ''list'' hello_daemon =
     Return ([''Registered domains:'', ''- hello.local''], hello_daemon)"
    by (simp add: handleConnection_def Let_def Fields_list List_def hello_daemon_def)
  from Add_hello h1 h2 show ?thesis by simp
qed

text \<open>
  For every name, \<^verbatim>\<open>remove <name>\<close> does not find the Record that \<^verbatim>\<open>Add(name, port)\<close>
  stored.
\<close>

lemma remove_short_name_not_found:
  assumes "List s = [fullDomain name]" and "Fields line = [''remove'', name]"
  shows "handleConnection e line s = Return ([''Error: domain '' @ name @ '' not registered''], s)"
proof -
  from assms(1) fullDomain_neq [of name] have "map_of (records s) name = None"
    by (simp add: map_of_None_iff_List)
  with assms(2) show ?thesis
    by (simp add: handleConnection_def Remove_def)
qed

text \<open>Only the key under which \<^verbatim>\<open>Add\<close> stored the record removes it.\<close>

lemma remove_hello_local_found:
  "handleConnection env_ok ''remove hello.local'' hello_daemon =
     Return ([''Removed domain: hello.local''],
       hello_daemon\<lparr>shutdowns := [0], records := [], logs := [''Removed domain: hello.local'']\<rparr>)
   \<and> handleConnection env_ok ''list''
       (hello_daemon\<lparr>shutdowns := [0], records := [], logs := [''Removed domain: hello.local'']\<rparr>) =
     Return ([''No domains registered''],
       hello_daemon\<lparr>shutdowns := [0], records := [], logs := [''Removed domain: hello.local'']\<rparr>)"
proof -
  have rm: "Remove ''hello.local'' hello_daemon =
      (None, hello_daemon\<lparr>shutdowns := [0], records := [], logs := [''Removed domain: hello.local'']\<rparr>)"
    by (simp add: Remove_def hello_daemon_def hello_record_def)
  have h1: "handleConnection env_ok ''remove hello.local'' hello_daemon =
     Return ([''Removed domain: hello.local''],
       hello_daemon\<lparr>shutdowns := [0], records := [], logs := [''Removed domain: hello.local'']\<rparr>)"
    by (simp add: handleConnection_def Let_def Fields_remove_hello_local rm)
  have h2: "handleConnection env_ok ''list''
       (hello_daemon\<lparr>shutdowns := [0], records := [], logs := [''Removed domain: hello.local'']\<rparr>) =
     Return ([''No domains registered''],
       hello_daemon\<lparr>shutdowns := [0], records := [], logs := [''Removed domain: hello.local'']\<rparr>)"
    by (simp add: handleConnection_def Let_def Fields_list List_def)
  from h1 h2 show ?thesis by simp
qed

subsection \<open>C3: \<^verbatim>\<open>Shutdown\<close>\<close>

text \<open>
  Claim C3: \<^verbatim>\<open>Shutdown()\<close> releases every advertisement handle, logs each release and
  leaves the Registry empty; a second call is a no-op over an empty map and releases no
  handle a second time.

  As stated the claim fails: \<^verbatim>\<open>Shutdown\<close> deletes nothing. After it the registry of
  \<open>hello_daemon\<close> still lists \<^verbatim>\<open>hello.local\<close>, and a second call shuts server 0
  down again.
\<close>

theorem Shutdown_keeps_records_counterexample:
  "List (Shutdown hello_daemon) = [''hello.local'']
   \<and> shutdowns (Shutdown hello_daemon) = [0]
   \<and> shutdowns (Shutdown (Shutdown hello_daemon)) = [0, 0]"
  by (simp add: Shutdown_def Shutdown_loop_eq List_def hello_daemon_def hello_record_def)

text \<open>
  Claim C3 as amended: for every registry state, \<^verbatim>\<open>Shutdown()\<close> releases the handle of
  every Record, once per Record, and logs each release; it deletes no Record, so the
  Registry holds the same Records afterwards and is empty afterwards exactly when it was
  empty before. A second call releases the handle of every Record once more, in whatever
  order it visits them (each handle is then released twice over the two calls); it is a
  no-op exactly when the map is empty.
\<close>

theorem Shutdown_releases_each_handle:
  "shutdowns (Shutdown s) = shutdowns s @ map (server \<circ> snd) (records s)
   \<and> logs (Shutdown s) =
       logs s @ map (\<lambda>(domain, rec). ''Shutting down domain: '' @ domain) (records s)
   \<and> records (Shutdown s) = records s
   \<and> servers (Shutdown s) = servers s
   \<and> done_closed (Shutdown s) = done_closed s
   \<and> (List (Shutdown s) = [] \<longleftrightarrow> List s = [])
   \<and> count_list (shutdowns (Shutdown (Shutdown s))) h =
       count_list (shutdowns s) h + 2 * count_list (map (server \<circ> snd) (records s)) h
   \<and> records (Shutdown (Shutdown s)) = records s
   \<and> (Shutdown (Shutdown s) = Shutdown s \<longleftrightarrow> List s = [])"
proof -
  have one: "Shutdown t =
      t\<lparr>shutdowns := shutdowns t @ map (server \<circ> snd) (records t),
        logs := logs t @ map (\<lambda>(domain, rec). ''Shutting down domain: '' @ domain) (records t)\<rparr>"
    for t
    by (simp add: Shutdown_def Shutdown_loop_eq)
  have noop: "Shutdown (Shutdown s) = Shutdown s \<longleftrightarrow> List s = []"
  proof
    assume "Shutdown (Shutdown s) = Shutdown s"
    then have "length (shutdowns (Shutdown (Shutdown s))) = length (shutdowns (Shutdown s))"
      by simp
    then show "List s = []"
      by (simp add: one List_def)
  next
    assume "List s = []"
    then show "Shutdown (Shutdown s) = Shutdown s"
      by (simp add: one List_def)
  qed
  have "count_list (shutdowns (Shutdown (Shutdown s))) h =
       count_list (shutdowns s) h + 2 * count_list (map (server \<circ> snd) (records s)) h"
    by (simp add: one)
  with noop show ?thesis
    by (simp add: one List_def)
qed

text \<open>On the empty registry \<^verbatim>\<open>Shutdown()\<close> changes nothing, the first time and the second.\<close>

lemma Shutdown_empty: "Shutdown NewDomainForge = NewDomainForge"
  by (simp add: Shutdown_def NewDomainForge_def)

subsection \<open>C4: a Record exists if and only if its advertisement is live\<close>

text \<open>
  Claim C4: over every sequence of registry operations (\<^verbatim>\<open>Add\<close> with its rollback
  path, \<^verbatim>\<open>Remove\<close>, a tick of the broadcaster, \<^verbatim>\<open>Shutdown\<close>), a Record is in the
  Registry if and only if its advertisement is live; no reachable state holds a Record
  whose handle was released.

  As stated the claim fails: after \<^verbatim>\<open>Add("hello", 3000)\<close> and \<^verbatim>\<open>Shutdown()\<close> the
  Record of \<^verbatim>\<open>hello.local\<close> is still in the map and its server has been shut down.
\<close>

theorem registry_inv_Shutdown_counterexample:
  "apply_ops [OpAdd env_ok ''hello'' 3000, OpShutdown] NewDomainForge = Return hello_shut_down
   \<and> map_of (records hello_shut_down) ''hello.local'' = Some hello_record
   \<and> server hello_record \<in> set (shutdowns hello_shut_down)
   \<and> \<not> registry_inv hello_shut_down"
proof -
  have "map_of (records hello_shut_down) ''hello.local'' = Some hello_record"
    by (simp add: hello_shut_down_def hello_daemon_def)
  moreover have "server hello_record \<in> set (shutdowns hello_shut_down)"
    by (simp add: hello_shut_down_def hello_record_def)
  moreover have "\<not> registry_inv hello_shut_down"
    by (simp add: registry_inv_def live_servers_def hello_shut_down_def hello_daemon_def
        hello_record_def)
  ultimately show ?thesis
    using apply_ops_add_shutdown by simp
qed

text \<open>
  Claim C4 as amended: over every sequence of \<^verbatim>\<open>Add\<close> (an \<^verbatim>\<open>Add\<close> whose server
  block is refused apart), \<^verbatim>\<open>Remove\<close> and broadcaster ticks that starts from the new
  registry and in which every call returns, the Records and the live advertisements
  correspond one to one: the server of every Record was created and never shut down, and
  every such server belongs to a Record. \<^verbatim>\<open>Shutdown\<close>, after which \<^verbatim>\<open>run\<close> returns,
  is not among the operations.
\<close>

theorem registry_inv_reachable:
  assumes "list_all keeps_live ops" and "apply_ops ops NewDomainForge = Return s"
  shows "registry_inv s
    \<and> (\<forall>(domain, rec) \<in> set (records s). server rec < servers s \<and> server rec \<notin> set (shutdowns s))
    \<and> (\<forall>h < servers s. h \<notin> set (shutdowns s) \<longrightarrow>
          (\<exists>(domain, rec) \<in> set (records s). server rec = h))"
proof -
  from registry_inv_New assms have inv: "registry_inv s"
    by (rule apply_ops_registry_inv)
  then have live: "\<And>h. h \<in> (server \<circ> snd) ` set (records s) \<longleftrightarrow>
      h < servers s \<and> h \<notin> set (shutdowns s)"
    by (simp add: registry_inv_iff)
  have "\<forall>(domain, rec) \<in> set (records s). server rec < servers s \<and> server rec \<notin> set (shutdowns s)"
  proof (intro ballI, clarify)
    fix d r assume "(d, r) \<in> set (records s)"
    then have "server r \<in> (server \<circ> snd) ` set (records s)"
      by force
    with live [of "server r"] show "server r < servers s \<and> server r \<notin> set (shutdowns s)"
      by simp
  qed
  moreover have "\<forall>h < servers s. h \<notin> set (shutdowns s) \<longrightarrow>
          (\<exists>(domain, rec) \<in> set (records s). server rec = h)"
  proof (intro allI impI)
    fix h assume "h < servers s" and "h \<notin> set (shutdowns s)"
    with live [of h] have "h \<in> (server \<circ> snd) ` set (records s)"
      by simp
    then obtain d r where "(d, r) \<in> set (records s)" and "server r = h"
      by auto
    then show "\<exists>(domain, rec) \<in> set (records s). server rec = h"
      by (intro bexI [of _ "(d, r)"]) simp_all
  qed
  ultimately show ?thesis
    using inv by simp
qed

theorem registry_inv_reachable_witness:
  "list_all keeps_live [OpAdd env_ok ''hello'' 3000, OpBroadcastAll env_ok]
   \<and> apply_ops [OpAdd env_ok ''hello'' 3000, OpBroadcastAll env_ok] NewDomainForge =
       Return hello_refreshed
   \<and> registry_inv hello_refreshed
   \<and> map (server \<circ> snd) (records hello_refreshed) = [1]
   \<and> live_servers hello_refreshed = [1]"
proof -
  have ops: "list_all keeps_live [OpAdd env_ok ''hello'' 3000, OpBroadcastAll env_ok]"
    by (simp add: not_route_sync_fails_ok)
  have "live_servers hello_refreshed = [1]"
    by (simp add: live_servers_def hello_refreshed_def upt_rec)
  moreover have "map (server \<circ> snd) (records hello_refreshed) = [1]"
    by (simp add: hello_refreshed_def)
  ultimately show ?thesis
    using ops apply_ops_add_tick registry_inv_reachable [OF ops apply_ops_add_tick]
    by simp
qed

text \<open>The rollback of \<^verbatim>\<open>Add\<close> (see C1) is no part of the amended claim: it breaks the correspondence.\<close>

lemma Add_rollback_breaks_registry_inv:
  "apply_ops [OpAdd env_route_fails ''foo'' 80] NewDomainForge = Return foo_stale
   \<and> \<not> registry_inv foo_stale"
proof -
  have "\<not> registry_inv foo_stale"
    by (simp add: registry_inv_def live_servers_def foo_stale_def)
  with Add_foo_refused show ?thesis by simp
qed

subsection \<open>C5: a failure of the resolver in \<^verbatim>\<open>Add\<close>\<close>

text \<open>
  Claim C5: when the Local-Network Resolver fails during \<^verbatim>\<open>Add(name, port)\<close>, the
  failure comes back to the caller as an error (an \<^verbatim>\<open>Error:\<close> response line) and the
  process does not terminate.

  As stated the claim fails: on a host with a loopback interface only, \<^verbatim>\<open>GetLocalIP\<close>
  fails, and \<^verbatim>\<open>Add\<close> ends in \<^verbatim>\<open>log.Fatalln\<close>; the process exits and the handler
  writes no response.
\<close>

theorem Add_resolver_failure_counterexample:
  "GetLocalIP (InterfaceAddrs env_no_ip) = Inl ''no suitable local IP address found''
   \<and> Add env_no_ip ''hello'' 3000 NewDomainForge =
       Fatal ''Error getting local IP: no suitable local IP address found''
   \<and> handleConnection env_no_ip ''add hello --port 3000'' NewDomainForge =
       Fatal ''Error getting local IP: no suitable local IP address found''"
proof -
  have add: "Add env_no_ip ''hello'' 3000 NewDomainForge =
       Fatal ''Error getting local IP: no suitable local IP address found''"
    by (simp add: Add_def env_no_ip_fields GetLocalIP_loopback_only)
  have h: "handleConnection env_no_ip ''add hello --port 3000'' NewDomainForge =
       Fatal ''Error getting local IP: no suitable local IP address found''"
    by (simp add: handleConnection_def Let_def Fields_add_hello Atoi_3000 add)
  from GetLocalIP_loopback_only add h show ?thesis by simp
qed

text \<open>
  Claim C5 as amended: when the configuration was read and the Local-Network Resolver fails
  during \<^verbatim>\<open>Add(name, port)\<close>, \<^verbatim>\<open>Add\<close> logs \<^verbatim>\<open>Error getting local IP:\<close> with the
  resolver's error and exits the process; nothing is returned to the caller, and the handler
  of an \<^verbatim>\<open>add <name> --port <port>\<close> line writes no response.
\<close>

theorem Add_resolver_failure_is_fatal:
  assumes "ReadConfig e = Inr config" and "GetLocalIP (InterfaceAddrs e) = Inl err"
  shows "Add e name port s = Fatal (''Error getting local IP: '' @ err)
    \<and> (Fields line = [''add'', name, ''--port'', p] \<and> Atoi p = Inr port \<longrightarrow>
         handleConnection e line s = Fatal (''Error getting local IP: '' @ err))"
proof -
  have add: "Add e name port s = Fatal (''Error getting local IP: '' @ err)"
    using assms by (simp add: Add_def)
  then show ?thesis
    by (simp add: handleConnection_def Let_def)
qed

theorem Add_resolver_failure_is_fatal_witness:
  "ReadConfig env_no_ip = Inr DefaultConfig
   \<and> GetLocalIP (InterfaceAddrs env_no_ip) = Inl ''no suitable local IP address found''
   \<and> Fields ''add hello --port 3000'' = [''add'', ''hello'', ''--port'', ''3000'']
   \<and> Atoi ''3000'' = Inr 3000
   \<and> Add env_no_ip ''hello'' 3000 hello_daemon =
       Fatal ''Error getting local IP: no suitable local IP address found''
   \<and> handleConnection env_no_ip ''add hello --port 3000'' hello_daemon =
       Fatal ''Error getting local IP: no suitable local IP address found''"
  using Add_resolver_failure_is_fatal [of env_no_ip DefaultConfig
      "''no suitable local IP address found''" "''hello''" 3000 hello_daemon
      "''add hello --port 3000''" "''3000''"]
  by (simp add: env_no_ip_fields GetLocalIP_loopback_only Fields_add_hello Atoi_3000)

subsection \<open>C6: malformed input lines\<close>

text \<open>
  Claim C6: for every input line, the empty line and lines with an unknown first token
  included, the handler writes a usage or \<^verbatim>\<open>Unknown command\<close> response without
  crashing and leaves the Registry unchanged.

  The code on the empty line: \<^verbatim>\<open>strings.Fields\<close> returns no token and \<^verbatim>\<open>parts[0]\<close>
  panics with an index out of range, whatever the state and the environment; nothing is
  written.
\<close>

theorem handle_empty_line_panics:
  "handleConnection e [] s = Panic ''runtime error: index out of range [0] with length 0''"
  by (simp add: handleConnection_def Let_def Fields_empty)

text \<open>The same on every line without a token, a line of blanks for one.\<close>

lemma handle_no_token_panics:
  "Fields line = [] \<Longrightarrow>
     handleConnection e line s = Panic ''runtime error: index out of range [0] with length 0''"
  by (simp add: handleConnection_def)

lemma Fields_blank: "Fields ''   '' = []"
  by (simp add: Fields_def spaceWidth_def space_runes_def)

text \<open>
  A line with an unknown first token, an \<^verbatim>\<open>add\<close> or a \<^verbatim>\<open>remove\<close> of the wrong shape
  and an \<^verbatim>\<open>add\<close> whose port is no number each get one response line, and the state
  stays as it was.
\<close>

lemma handle_unknown_command:
  assumes "Fields line = cmd # rest"
    and "cmd \<noteq> ''add''" and "cmd \<noteq> ''remove''" and "cmd \<noteq> ''list''" and "cmd \<noteq> ''stop''"
  shows "handleConnection e line s = Return ([''Unknown command''], s)"
  using assms by (simp add: handleConnection_def Let_def)

lemma handle_malformed_add:
  assumes "Fields line = ''add'' # rest"
    and "length rest \<noteq> 3 \<or> rest ! 1 \<noteq> ''--port''"
  shows "handleConnection e line s =
     Return ([''Invalid command. Usage: add <domain> --port <port>''], s)"
  using assms by (auto simp add: handleConnection_def Let_def)

lemma handle_invalid_port:
  assumes "Fields line = [''add'', domain, ''--port'', p]" and "Atoi p = Inl err"
  shows "handleConnection e line s =
     Return ([''Invalid port number: '' @ NumError_Error (Quote e) p err], s)"
  using assms by (simp add: handleConnection_def Let_def)

lemma handle_malformed_remove:
  assumes "Fields line = ''remove'' # rest" and "length rest \<noteq> 1"
  shows "handleConnection e line s = Return ([''Invalid command. Usage: remove <domain>''], s)"
  using assms by (simp add: handleConnection_def Let_def)

text \<open>
  \<^verbatim>\<open>list\<close> and \<^verbatim>\<open>stop\<close> do not look at the tokens after the first: a line such as
  \<^verbatim>\<open>list extra\<close> is answered as \<^verbatim>\<open>list\<close>, and \<^verbatim>\<open>stop now\<close> closes the channel.
\<close>

lemma handle_list_extra_tokens:
  assumes "Fields line = ''list'' # rest"
  shows "handleConnection e line s =
     Return (if List s = [] then [''No domains registered'']
             else ''Registered domains:'' # map (\<lambda>domain. ''- '' @ domain) (List s), s)"
  using assms by (simp add: handleConnection_def Let_def)

lemma handle_stop_extra_tokens:
  assumes "Fields line = ''stop'' # rest" and "\<not> done_closed s"
  shows "handleConnection e line s = Return ([], s\<lparr>done_closed := True\<rparr>)"
  using assms by (simp add: handleConnection_def)

subsection \<open>C7: adding a domain twice\<close>

text \<open>
  Claim C7: on every registry that already contains \<open>fullDomain name\<close>, a second
  \<^verbatim>\<open>Add(name, port)\<close>, the configuration and the resolver succeeding, fails with the
  already-registered error for that \<open>fullDomain\<close>, changes nothing, and \<^verbatim>\<open>List()\<close>
  still has exactly one entry for \<open>fullDomain name\<close>. (The keys of a Go map are distinct,
  which is the first hypothesis.)
\<close>

theorem Add_duplicate_rejected:
  assumes "distinct (List s)"
    and "fullDomain name \<in> set (List s)"
    and "ReadConfig e = Inr config"
    and "GetLocalIP (InterfaceAddrs e) = Inr localIP"
  shows "Add e name port s =
           Return (Some (''domain '' @ fullDomain name @ '' already registered''), s)
    \<and> count_list (List s) (fullDomain name) = 1"
proof -
  from assms(2) have "map_of (records s) (TrimSpace name @ ''.local'') \<noteq> None"
    by (simp add: map_of_None_iff_List fullDomain_def)
  with assms(3,4) have "Add e name port s =
           Return (Some (''domain '' @ fullDomain name @ '' already registered''), s)"
    by (simp add: Add_def Let_def fullDomain_def)
  moreover from assms(1,2) have "count_list (List s) (fullDomain name) = 1"
    by (rule count_list_distinct)
  ultimately show ?thesis by simp
qed

theorem Add_duplicate_rejected_witness:
  "distinct (List hello_daemon)
   \<and> fullDomain ''hello'' \<in> set (List hello_daemon)
   \<and> ReadConfig env_ok = Inr DefaultConfig
   \<and> GetLocalIP (InterfaceAddrs env_ok) = Inr ''192.168.1.7''
   \<and> Add env_ok ''hello'' 3000 hello_daemon =
       Return (Some ''domain hello.local already registered'', hello_daemon)
   \<and> count_list (List hello_daemon) ''hello.local'' = 1"
  using Add_duplicate_rejected [of hello_daemon "''hello''" env_ok DefaultConfig "''192.168.1.7''" 3000]
  by (simp add: env_ok_fields GetLocalIP_lan fullDomain_def TrimSpace_hello List_def hello_daemon_def)

subsection \<open>C8: a tick of the broadcaster\<close>

text \<open>
  Claim C8: for every registry state, a tick of the broadcaster (\<^verbatim>\<open>broadcastAll\<close>) in
  which the resolver and every re-registration succeed leaves the set of registered
  domain names unchanged; only the advertisement handle of each Record is replaced: the
  keys, in their order, the service and the host of every Record stay, the old servers are
  shut down and the Records get the servers created next.
\<close>

theorem broadcastAll_keeps_domains:
  assumes "distinct (List s)"
    and "GetLocalIP (InterfaceAddrs e) = Inr localIP"
    and "\<forall>(domain, info) \<in> set (records s).
            RegisterProxy e (service info) (host info) localIP = None"
  shows "\<exists>s'. broadcastAll e s = Return s'
      \<and> List s' = List s
      \<and> map (service \<circ> snd) (records s') = map (service \<circ> snd) (records s)
      \<and> map (host \<circ> snd) (records s') = map (host \<circ> snd) (records s)
      \<and> map (server \<circ> snd) (records s') = [servers s..<servers s + length (records s)]
      \<and> shutdowns s' = shutdowns s @ map (server \<circ> snd) (records s)
      \<and> logs s' = logs s \<and> done_closed s' = done_closed s"
proof -
  from assms(1) have "distinct (map fst (records s))"
    by (simp add: List_def)
  from broadcastAll_Return [OF this assms(2,3)]
    map2_renumber_keys [of "[servers s..<servers s + length (records s)]" "records s"]
    map2_renumber_service [of "[servers s..<servers s + length (records s)]" "records s"]
    map2_renumber_host [of "[servers s..<servers s + length (records s)]" "records s"]
    map2_renumber_server [of "[servers s..<servers s + length (records s)]" "records s"]
  show ?thesis
    by (simp add: List_def)
qed

theorem broadcastAll_keeps_domains_witness:
  "distinct (List hello_daemon)
   \<and> GetLocalIP (InterfaceAddrs env_ok) = Inr ''192.168.1.7''
   \<and> records hello_daemon = [(''hello.local'', hello_record)]
   \<and> RegisterProxy env_ok (service hello_record) (host hello_record) ''192.168.1.7'' = None
   \<and> (\<exists>s'. broadcastAll env_ok hello_daemon = Return s'
        \<and> List s' = [''hello.local'']
        \<and> map (service \<circ> snd) (records s') = [''_hello._tcp'']
        \<and> map (host \<circ> snd) (records s') = [''hello.local.'']
        \<and> map (server \<circ> snd) (records s') = [1]
        \<and> shutdowns s' = [0] \<and> logs s' = [] \<and> done_closed s' = False)"
  using broadcastAll_keeps_domains [of hello_daemon env_ok "''192.168.1.7''"]
  by (simp add: GetLocalIP_lan env_ok_fields List_def hello_daemon_def hello_record_def)

subsection \<open>C9: removing an unknown domain\<close>

text \<open>
  Claim C9: for every registry and every key \<open>domain\<close> not in it, \<^verbatim>\<open>Remove(domain)\<close>
  fails with the not-registered error, shuts no server down and leaves the registry (the
  whole state) unchanged; the handler of \<^verbatim>\<open>remove <domain>\<close> renders the error as an
  \<^verbatim>\<open>Error:\<close> line.
\<close>

theorem Remove_absent_rejected:
  assumes "domain \<notin> set (List s)"
  shows "Remove domain s = (Some (''domain '' @ domain @ '' not registered''), s)
    \<and> (Fields line = [''remove'', domain] \<longrightarrow>
         handleConnection e line s = Return ([''Error: domain '' @ domain @ '' not registered''], s))"
proof -
  from assms have "map_of (records s) domain = None"
    by (simp add: map_of_None_iff_List)
  then have rm: "Remove domain s = (Some (''domain '' @ domain @ '' not registered''), s)"
    by (simp add: Remove_def)
  then show ?thesis
    by (simp add: handleConnection_def Let_def)
qed

theorem Remove_absent_rejected_witness:
  "''nope'' \<notin> set (List hello_daemon)
   \<and> Fields ''remove nope'' = [''remove'', ''nope'']
   \<and> Remove ''nope'' hello_daemon = (Some ''domain nope not registered'', hello_daemon)
   \<and> handleConnection env_ok ''remove nope'' hello_daemon =
       Return ([''Error: domain nope not registered''], hello_daemon)"
  using Remove_absent_rejected [of "''nope''" hello_daemon "''remove nope''" env_ok]
  by (simp add: List_def hello_daemon_def Fields_remove_nope)

subsection \<open>C10: \<^verbatim>\<open>stop\<close> twice\<close>

text \<open>
  Claim C10: the \<^verbatim>\<open>stop\<close> branch calls \<^verbatim>\<open>close(ch)\<close> with no guard, so when two
  connections each send \<^verbatim>\<open>stop\<close>, the handler that runs second closes the channel that
  the first has closed, and panics. The two handlers share nothing but the channel, and
  each touches it once, so they are two steps on the state, in the order in which they
  reach \<^verbatim>\<open>close\<close>.
\<close>

theorem stop_twice_panics:
  assumes "\<not> done_closed s"
  shows "handleConnection e1 ''stop'' s = Return ([], s\<lparr>done_closed := True\<rparr>)
    \<and> handleConnection e2 ''stop'' (s\<lparr>done_closed := True\<rparr>) = Panic ''close of closed channel''"
  using assms by (simp add: handleConnection_def Let_def Fields_stop)

theorem stop_twice_panics_witness:
  "\<not> done_closed NewDomainForge
   \<and> handleConnection env_ok ''stop'' NewDomainForge =
       Return ([], NewDomainForge\<lparr>done_closed := True\<rparr>)
   \<and> handleConnection env_ok ''stop'' (NewDomainForge\<lparr>done_closed := True\<rparr>) =
       Panic ''close of closed channel''"
  using stop_twice_panics [of NewDomainForge env_ok env_ok]
  by (simp add: NewDomainForge_def)

end
